theory Spec2Isabelle
  imports Complex_Main
begin

section \<open>The ship-controlling bot: data model\<close>

text \<open>
  The embedding follows \<^verbatim>\<open>src/bot.py\<close>. The classes \<^verbatim>\<open>Checkpoint\<close>,
  \<^verbatim>\<open>Location\<close> and \<^verbatim>\<open>Instructions\<close>, the function \<^verbatim>\<open>distance_on_surface\<close> and
  the value \<^verbatim>\<open>config.start\<close> belong to the \<^verbatim>\<open>vendeeglobe\<close> package, which the bot
  imports. The classes are records with the fields the bot reads and writes; the
  distance function and the start position are parameters.

  Numbers: a finite Python float is represented by the real number it denotes, so
  rounding, overflow and the sign of zero are outside the model. The one operation of
  \<^verbatim>\<open>run\<close> that can leave the finite numbers, the division \<^verbatim>\<open>ch.radius / jump\<close>, is
  written out with its non-finite results (type \<open>float64\<close> below).
\<close>

text \<open>
  Modelled from the spec: the class \<^verbatim>\<open>Checkpoint\<close> is declared in the \<^verbatim>\<open>vendeeglobe\<close>
  package. The specification gives a checkpoint a latitude, a longitude, a radius and a
  mutable flag \<open>reached\<close>, false at first; \<^verbatim>\<open>bot.py\<close> constructs checkpoints from the
  first three and reads and sets the fourth.
\<close>

record checkpoint =
  latitude :: real
  longitude :: real
  radius :: real
  reached :: bool

text \<open>
  Modelled from the spec: the class \<^verbatim>\<open>Location\<close> of the same package, constructed as
  \<^verbatim>\<open>Location(longitude=..., latitude=...)\<close>. The field names carry a prefix because
  \<open>longitude\<close> and \<open>latitude\<close> are the fields of a checkpoint.
\<close>

record location =
  loc_longitude :: real
  loc_latitude :: real

text \<open>What a numpy \<^verbatim>\<open>float64\<close> can hold: a finite number, an infinity, or not-a-number.\<close>

datatype float64 = Fin real | PInf | NInf | NaN

text \<open>
  Modelled from the spec: the class \<^verbatim>\<open>Instructions\<close> of the same package, whose fields
  are all optional. \<^verbatim>\<open>Instructions()\<close> starts with every field unset (\<^verbatim>\<open>None\<close>);
  \<^verbatim>\<open>run\<close> assigns \<^verbatim>\<open>location\<close> and \<^verbatim>\<open>sail\<close> only, and the other directives (heading,
  vector, left, right) are never touched and are left out.
\<close>

record instructions =
  location :: "location option"
  sail :: "float64 option"

definition Instructions :: instructions where
  "Instructions = \<lparr>location = None, sail = None\<rparr>"

record bot =
  team :: string
  course :: "checkpoint list"

definition Checkpoint :: "real \<Rightarrow> real \<Rightarrow> real \<Rightarrow> checkpoint" where
  "Checkpoint lat lon r = \<lparr>latitude = lat, longitude = lon, radius = r, reached = False\<rparr>"

text \<open>
  \<^verbatim>\<open>Bot.__init__\<close>. The two arguments are \<^verbatim>\<open>config.start.latitude\<close> and
  \<^verbatim>\<open>config.start.longitude\<close>. Line 28 of \<^verbatim>\<open>bot.py\<close>, the first checkpoint, has two
  no-break spaces (U+00A0) in its indentation, a character that Python 3 accepts only
  inside strings and comments; the course below reads the line as the call it spells.
\<close>

definition Bot_init :: "real \<Rightarrow> real \<Rightarrow> bot" where
  "Bot_init start_latitude start_longitude =
    \<lparr>team = ''TeamName'',
     course =
      [Checkpoint 43.797109 (-11.264905) 50,
       Checkpoint 16.79314 (-57.16281) 50,
       Checkpoint 14.33136 (-60.86658) 10,
       Checkpoint 14.88418 (-75.99475) 50,
       Checkpoint 10.05314 (-80.25195) 30,
       Checkpoint 9.34789 (-79.91893) 10,
       Checkpoint 8.92079 (-79.47879) 10,
       Checkpoint 6.81393 (-79.21698) 30,
       Checkpoint 3 (-150.0) 100,
       Checkpoint 2.67776 132.97296 50,
       Checkpoint (-2.44015) 129.74323 10,
       Checkpoint (-2.96691) 125.12873 10,
       Checkpoint (-8.21340) 128.47406 50,
       Checkpoint (-11.34191) 128.54547 10,
       Checkpoint (-14.16543) 115.78259 50,
       Checkpoint (-20) 70 50,
       Checkpoint (-36.693) 22.09 50,
       Checkpoint (-36.9) 12 50,
       Checkpoint 14.06509 (-24.97424) 50,
       Checkpoint 45.53168 (-11.13147) 50,
       Checkpoint start_latitude start_longitude 5]\<rparr>"

section \<open>Arithmetic of the sail heuristic\<close>

text \<open>
  \<^verbatim>\<open>jump = dt * np.linalg.norm(speed)\<close>: the norm of a scalar is its absolute value.
  The result of \<^verbatim>\<open>np.linalg.norm\<close> is a numpy \<^verbatim>\<open>float64\<close>, and so is its product with
  \<^verbatim>\<open>dt\<close>.
\<close>

definition jump_of :: "real \<Rightarrow> real \<Rightarrow> real" where
  "jump_of dt speed = dt * \<bar>speed\<bar>"

text \<open>
  \<^verbatim>\<open>ch.radius / jump\<close>. The divisor is a numpy \<^verbatim>\<open>float64\<close>, so the division is numpy's:
  it follows IEEE 754, and under numpy's default error state a zero divisor gives an
  infinity or not-a-number (with a \<^verbatim>\<open>RuntimeWarning\<close>) where a division of two builtin
  numbers would raise \<^verbatim>\<open>ZeroDivisionError\<close>. The zero divisor is read as \<open>+0.0\<close>, the
  value of \<open>dt * |speed|\<close> for a vessel at rest and a time step that is not negative;
  for a negative time step the product is \<open>-0.0\<close> and the quotient of the code has the
  opposite sign.
\<close>

definition np_truediv :: "real \<Rightarrow> real \<Rightarrow> float64" where
  "np_truediv a b =
    (if b \<noteq> 0 then Fin (a / b)
     else if 0 < a then PInf
     else if a < 0 then NInf
     else NaN)"

text \<open>The comparison \<^verbatim>\<open><\<close>: false whenever an operand is not-a-number.\<close>

fun f64_less :: "float64 \<Rightarrow> float64 \<Rightarrow> bool" where
  "f64_less (Fin x) (Fin y) = (x < y)"
| "f64_less NaN _ = False"
| "f64_less _ NaN = False"
| "f64_less _ NInf = False"
| "f64_less PInf _ = False"
| "f64_less NInf _ = True"
| "f64_less _ PInf = True"

text \<open>The builtin \<^verbatim>\<open>min(a, b)\<close> of two arguments keeps \<^verbatim>\<open>a\<close> unless \<^verbatim>\<open>b < a\<close>.\<close>

definition py_min :: "float64 \<Rightarrow> float64 \<Rightarrow> float64" where
  "py_min a b = (if f64_less b a then b else a)"

text \<open>Lines 133 to 136: the value assigned to \<^verbatim>\<open>instructions.sail\<close> for one checkpoint.\<close>

definition sail_for :: "real \<Rightarrow> real \<Rightarrow> real \<Rightarrow> float64" where
  "sail_for d r jump =
    (if d < 2.0 * r + jump then py_min (np_truediv r jump) (Fin 1) else Fin 1.0)"

section \<open>The operation \<^verbatim>\<open>Bot.run\<close>\<close>

text \<open>
  The \<^verbatim>\<open>for\<close> loop of lines 123 to 144, over the checkpoints that remain. The first
  argument is \<^verbatim>\<open>distance_on_surface\<close>, called with \<^verbatim>\<open>longitude1\<close>, \<^verbatim>\<open>latitude1\<close>,
  \<^verbatim>\<open>longitude2\<close>, \<^verbatim>\<open>latitude2\<close>. The loop returns the instructions and the checkpoints
  with their flags as the loop leaves them; \<^verbatim>\<open>break\<close> is the branch without a
  recursive call.
\<close>

fun run_loop ::
  "(real \<Rightarrow> real \<Rightarrow> real \<Rightarrow> real \<Rightarrow> real) \<Rightarrow> real \<Rightarrow> real \<Rightarrow> real \<Rightarrow> real \<Rightarrow>
   instructions \<Rightarrow> checkpoint list \<Rightarrow> instructions \<times> checkpoint list" where
  "run_loop D lon lat dt speed ins [] = (ins, [])"
| "run_loop D lon lat dt speed ins (ch # rest) =
    (let dist = D lon lat (longitude ch) (latitude ch);
         jump = jump_of dt speed;
         ins1 = ins\<lparr>sail := Some (sail_for dist (radius ch) jump)\<rparr>;
         ch1 = (if dist < radius ch then ch\<lparr>reached := True\<rparr> else ch)
     in if \<not> reached ch1
        then (ins1\<lparr>location :=
                Some \<lparr>loc_longitude = longitude ch1, loc_latitude = latitude ch1\<rparr>\<rparr>,
              ch1 # rest)
        else (case run_loop D lon lat dt speed ins1 rest of
                (ins2, rest') \<Rightarrow> (ins2, ch1 # rest')))"

text \<open>
  \<^verbatim>\<open>Bot.run\<close>. The two queries are callables supplied by the caller: each either returns a
  value (\<open>Inr\<close>) or raises (\<open>Inl\<close>), and an exception they raise leaves \<^verbatim>\<open>run\<close> before
  the loop has touched a checkpoint. The result is the outcome of the call together with
  the bot after it.
\<close>

definition run ::
  "(real \<Rightarrow> real \<Rightarrow> real \<Rightarrow> real \<Rightarrow> real) \<Rightarrow> bot \<Rightarrow> real \<Rightarrow> real \<Rightarrow> real \<Rightarrow> real \<Rightarrow> real \<Rightarrow>
   real \<Rightarrow> real list \<Rightarrow> (real \<Rightarrow> real \<Rightarrow> real \<Rightarrow> 'e + 'f) \<Rightarrow> (real \<Rightarrow> real \<Rightarrow> 'e + 'm) \<Rightarrow>
   ('e + instructions) \<times> bot" where
  "run D self t dt lon lat heading speed vector forecast world_map =
    (case forecast lat lon 0 of
       Inl e \<Rightarrow> (Inl e, self)
     | Inr current_position_forecast \<Rightarrow>
        (case world_map lat lon of
           Inl e \<Rightarrow> (Inl e, self)
         | Inr current_position_terrain \<Rightarrow>
            (case run_loop D lon lat dt speed Instructions (course self) of
               (ins, course') \<Rightarrow> (Inr ins, self\<lparr>course := course'\<rparr>))))"

text \<open>
  A tick is one call of \<^verbatim>\<open>run\<close> with its arguments; the simulation calls \<^verbatim>\<open>run\<close> once
  per tick on the same bot, whose checkpoints carry their flags from one call to the next.
\<close>

record ('e, 'f, 'm) tick =
  tick_t :: real
  tick_dt :: real
  tick_longitude :: real
  tick_latitude :: real
  tick_heading :: real
  tick_speed :: real
  tick_vector :: "real list"
  tick_forecast :: "real \<Rightarrow> real \<Rightarrow> real \<Rightarrow> 'e + 'f"
  tick_world_map :: "real \<Rightarrow> real \<Rightarrow> 'e + 'm"

definition run_tick ::
  "(real \<Rightarrow> real \<Rightarrow> real \<Rightarrow> real \<Rightarrow> real) \<Rightarrow> bot \<Rightarrow> ('e, 'f, 'm) tick \<Rightarrow> bot" where
  "run_tick D self k =
    snd (run D self (tick_t k) (tick_dt k) (tick_longitude k) (tick_latitude k)
           (tick_heading k) (tick_speed k) (tick_vector k) (tick_forecast k)
           (tick_world_map k))"

fun run_ticks ::
  "(real \<Rightarrow> real \<Rightarrow> real \<Rightarrow> real \<Rightarrow> real) \<Rightarrow> bot \<Rightarrow> ('e, 'f, 'm) tick list \<Rightarrow> bot" where
  "run_ticks D self [] = self"
| "run_ticks D self (k # ks) = run_ticks D (run_tick D self k) ks"

section \<open>Vocabulary of the properties\<close>

text \<open>The vessel at \<open>(lon, lat)\<close> is inside the capture radius of a checkpoint.\<close>

definition in_radius ::
  "(real \<Rightarrow> real \<Rightarrow> real \<Rightarrow> real \<Rightarrow> real) \<Rightarrow> real \<Rightarrow> real \<Rightarrow> checkpoint \<Rightarrow> bool" where
  "in_radius D lon lat ch \<longleftrightarrow> D lon lat (longitude ch) (latitude ch) < radius ch"

text \<open>The coordinates of a checkpoint, as a \<^verbatim>\<open>Location\<close>.\<close>

definition location_of :: "checkpoint \<Rightarrow> location" where
  "location_of ch = \<lparr>loc_longitude = longitude ch, loc_latitude = latitude ch\<rparr>"

text \<open>The first checkpoint of a course, in sequence order, whose flag is false.\<close>

definition first_unreached :: "checkpoint list \<Rightarrow> checkpoint option" where
  "first_unreached cs = find (\<lambda>c. \<not> reached c) cs"

text \<open>
  Concrete scenarios need a distance and two queries. \<open>flat_distance\<close> stands in for
  \<^verbatim>\<open>distance_on_surface\<close> there: it measures along the grid of meridians and parallels,
  111 units to the degree, and like every distance it is zero between a position and
  itself. The general theorems hold for every distance function.
\<close>

definition flat_distance :: "real \<Rightarrow> real \<Rightarrow> real \<Rightarrow> real \<Rightarrow> real" where
  "flat_distance longitude1 latitude1 longitude2 latitude2 =
    111 * (\<bar>longitude2 - longitude1\<bar> + \<bar>latitude2 - latitude1\<bar>)"

definition calm_forecast :: "real \<Rightarrow> real \<Rightarrow> real \<Rightarrow> string + real" where
  "calm_forecast latitudes longitudes offset = Inr 0"

definition gale_forecast :: "real \<Rightarrow> real \<Rightarrow> real \<Rightarrow> string + real" where
  "gale_forecast latitudes longitudes offset = Inr 40"

definition open_sea :: "real \<Rightarrow> real \<Rightarrow> string + nat" where
  "open_sea latitudes longitudes = Inr 1"

definition dry_land :: "real \<Rightarrow> real \<Rightarrow> string + nat" where
  "dry_land latitudes longitudes = Inr 0"

text \<open>
  No position lies inside the capture discs of both checkpoints. With a distance that
  obeys the triangle inequality this holds of two checkpoints at least the sum of their
  radii apart.
\<close>

definition disjoint_discs ::
  "(real \<Rightarrow> real \<Rightarrow> real \<Rightarrow> real \<Rightarrow> real) \<Rightarrow> checkpoint \<Rightarrow> checkpoint \<Rightarrow> bool" where
  "disjoint_discs D c1 c2 \<longleftrightarrow>
     (\<forall>lon lat. \<not> (in_radius D lon lat c1 \<and> in_radius D lon lat c2))"

text \<open>The same for \<open>flat_distance\<close>, as a test on the two checkpoints.\<close>

definition flat_apart :: "checkpoint \<Rightarrow> checkpoint \<Rightarrow> bool" where
  "flat_apart c1 c2 \<longleftrightarrow>
     radius c1 + radius c2 \<le>
       flat_distance (longitude c1) (latitude c1) (longitude c2) (latitude c2)"

text \<open>The reached checkpoints of a course are the first ones: behind an unreached
  checkpoint every checkpoint is unreached.\<close>

fun reached_prefix :: "checkpoint list \<Rightarrow> bool" where
  "reached_prefix [] = True"
| "reached_prefix (c # cs) =
     (if reached c then reached_prefix cs else list_all (\<lambda>c. \<not> reached c) cs)"

text \<open>A course of two checkpoints whose discs overlap: the second lies 0.05 degrees east
  of the first, and both have radius 10.\<close>

definition twin_marks :: bot where
  "twin_marks =
    \<lparr>team = ''TeamName'', course = [Checkpoint 0 0 10, Checkpoint 0 0.05 10]\<rparr>"

text \<open>A tick with the vessel at rest at the given position.\<close>

definition rest_tick :: "real \<Rightarrow> real \<Rightarrow> (string, real, nat) tick" where
  "rest_tick lon lat =
    \<lparr>tick_t = 0, tick_dt = 1, tick_longitude = lon, tick_latitude = lat, tick_heading = 0,
     tick_speed = 0, tick_vector = [1, 0], tick_forecast = calm_forecast,
     tick_world_map = open_sea\<rparr>"

text \<open>A course under way: the first checkpoint is reached, the next two lie one and two
  degrees east of it.\<close>

definition short_leg :: bot where
  "short_leg =
    \<lparr>team = ''TeamName'',
     course =
      [(Checkpoint 0 0 50)\<lparr>reached := True\<rparr>, Checkpoint 0 1 10, Checkpoint 0 2 10]\<rparr>"

text \<open>A course with every checkpoint reached.\<close>

definition finished :: bot where
  "finished =
    \<lparr>team = ''TeamName'',
     course =
      [(Checkpoint 0 0 50)\<lparr>reached := True\<rparr>, (Checkpoint 0 1 10)\<lparr>reached := True\<rparr>]\<rparr>"

section \<open>Facts about the loop\<close>

text \<open>The index of the first element of a list that fails a test.\<close>

lemma first_false_index:
  assumes "i < length xs" and "\<not> P (xs ! i)" and "\<forall>j<i. P (xs ! j)"
  shows "i = length (takeWhile P xs)"
  using assms
proof (induction xs arbitrary: i)
  case Nil
  then show ?case by simp
next
  case (Cons x xs)
  show ?case
  proof (cases i)
    case 0
    with Cons.prems show ?thesis by simp
  next
    case (Suc k)
    with Cons.prems have "P x" by auto
    moreover from Suc Cons.prems have "k = length (takeWhile P xs)"
      by (intro Cons.IH) auto
    ultimately show ?thesis using Suc by simp
  qed
qed

text \<open>The loop keeps the course as it is, flags apart.\<close>

lemma run_loop_length: "length (snd (run_loop D lon lat dt sp ins cs)) = length cs"
  by (induction cs arbitrary: ins) (simp_all add: Let_def split_beta)

lemma run_loop_latitude:
  "map latitude (snd (run_loop D lon lat dt sp ins cs)) = map latitude cs"
  by (induction cs arbitrary: ins) (simp_all add: Let_def split_beta)

lemma run_loop_longitude:
  "map longitude (snd (run_loop D lon lat dt sp ins cs)) = map longitude cs"
  by (induction cs arbitrary: ins) (simp_all add: Let_def split_beta)

lemma run_loop_radius:
  "map radius (snd (run_loop D lon lat dt sp ins cs)) = map radius cs"
  by (induction cs arbitrary: ins) (simp_all add: Let_def split_beta)

lemma flags_same: "map2 (\<lambda>c r. c\<lparr>reached := r\<rparr>) cs (map reached cs) = cs"
  by (induction cs) simp_all

lemma run_loop_flags_only:
  "map2 (\<lambda>c r. c\<lparr>reached := r\<rparr>) cs (map reached (snd (run_loop D lon lat dt sp ins cs))) =
     snd (run_loop D lon lat dt sp ins cs)"
  by (induction cs arbitrary: ins) (simp_all add: Let_def split_beta flags_same)

text \<open>
  Which flags are true after the loop: those that were true before, and those of the
  checkpoints the scan gets to while the vessel is inside their radius. The scan gets
  to a checkpoint when every earlier one is reached, before the call or by it.
\<close>

lemma run_loop_reached_iff:
  "i < length cs \<Longrightarrow>
   reached (snd (run_loop D lon lat dt sp ins cs) ! i) \<longleftrightarrow>
     reached (cs ! i) \<or>
     (in_radius D lon lat (cs ! i) \<and>
      (\<forall>j<i. reached (cs ! j) \<or> in_radius D lon lat (cs ! j)))"
proof (induction cs arbitrary: ins i)
  case Nil
  then show ?case by simp
next
  case (Cons c cs)
  show ?case
  proof (cases i)
    case 0
    then show ?thesis by (simp add: Let_def in_radius_def split_beta)
  next
    case (Suc k)
    with Cons.prems have k: "k < length cs" by simp
    have all: "(\<forall>j<Suc k. P j) \<longleftrightarrow> P 0 \<and> (\<forall>j<k. P (Suc j))" for P
      by (auto simp: less_Suc_eq_0_disj)
    show ?thesis
      using Cons.IH [OF k] Suc
      by (auto simp add: Let_def in_radius_def split_beta all)
  qed
qed

text \<open>The location of the instructions names the first checkpoint left unreached.\<close>

lemma run_loop_location:
  "location (fst (run_loop D lon lat dt sp ins cs)) =
    (case first_unreached (snd (run_loop D lon lat dt sp ins cs)) of
       None \<Rightarrow> location ins
     | Some ch \<Rightarrow> Some (location_of ch))"
  by (induction cs arbitrary: ins)
     (auto simp add: Let_def split_beta first_unreached_def location_of_def
        split: option.splits)

text \<open>The sail value that survives is the one of the checkpoint the scan stops at.\<close>

lemma run_loop_active:
  "first_unreached cs = Some ch \<Longrightarrow> \<not> in_radius D lon lat ch \<Longrightarrow>
   fst (run_loop D lon lat dt sp ins cs) =
     ins\<lparr>location := Some (location_of ch),
         sail := Some (sail_for (D lon lat (longitude ch) (latitude ch)) (radius ch)
                        (jump_of dt sp))\<rparr>"
  by (induction cs arbitrary: ins)
     (auto simp add: Let_def split_beta first_unreached_def location_of_def in_radius_def
        split: if_splits)

lemma run_loop_all_reached:
  "\<forall>c\<in>set cs. reached c \<Longrightarrow> cs \<noteq> [] \<Longrightarrow>
   run_loop D lon lat dt sp ins cs =
     (ins\<lparr>sail := Some (sail_for (D lon lat (longitude (last cs)) (latitude (last cs)))
                          (radius (last cs)) (jump_of dt sp))\<rparr>, cs)"
proof (induction cs arbitrary: ins)
  case Nil
  then show ?case by simp
next
  case (Cons c cs)
  then show ?case
    by (cases "cs = []") (auto simp add: Let_def split_beta)
qed

lemma run_loop_sail_some:
  "cs \<noteq> [] \<Longrightarrow>
   \<exists>c\<in>set cs. sail (fst (run_loop D lon lat dt sp ins cs)) =
      Some (sail_for (D lon lat (longitude c) (latitude c)) (radius c) (jump_of dt sp))"
proof (induction cs arbitrary: ins)
  case Nil
  then show ?case by simp
next
  case (Cons c cs)
  then show ?case
    by (cases "cs = []") (auto simp add: Let_def split_beta)
qed

lemma sail_for_bounds:
  assumes "0 < r" and "0 < j"
  shows "\<exists>s. sail_for d r j = Fin s \<and> 0 \<le> s \<and> s \<le> 1"
  using assms by (auto simp add: sail_for_def py_min_def np_truediv_def)

text \<open>
  The loop keeps the reached checkpoints a prefix of the course.
\<close>

lemma none_reached_prefix: "list_all (\<lambda>c. \<not> reached c) cs \<Longrightarrow> reached_prefix cs"
  by (induction cs) simp_all

lemma run_loop_none_reached:
  "list_all (\<lambda>c. \<not> reached c) cs \<Longrightarrow> reached_prefix (snd (run_loop D lon lat dt sp ins cs))"
  by (induction cs arbitrary: ins) (simp_all add: Let_def split_beta)

lemma run_loop_prefix:
  "reached_prefix cs \<Longrightarrow> reached_prefix (snd (run_loop D lon lat dt sp ins cs))"
  by (induction cs arbitrary: ins)
     (auto simp add: Let_def split_beta run_loop_none_reached split: if_splits)

lemma reached_prefix_nth:
  "reached_prefix cs \<Longrightarrow> j \<le> i \<Longrightarrow> i < length cs \<Longrightarrow> \<not> reached (cs ! j) \<Longrightarrow>
   \<not> reached (cs ! i)"
proof (induction cs arbitrary: i j)
  case Nil
  then show ?case by simp
next
  case (Cons c cs)
  show ?case
  proof (cases "reached c")
    case True
    with Cons.prems obtain j' where j: "j = Suc j'" by (cases j) auto
    with Cons.prems obtain i' where i: "i = Suc i'" by (cases i) auto
    from Cons.IH [of j' i'] Cons.prems True i j show ?thesis by simp
  next
    case False
    with Cons.prems have "list_all (\<lambda>c. \<not> reached c) (c # cs)" by simp
    with Cons.prems(3) show ?thesis
      unfolding list_all_length by blast
  qed
qed

lemma successively_nth:
  "successively P xs \<Longrightarrow> Suc i < length xs \<Longrightarrow> P (xs ! i) (xs ! Suc i)"
proof (induction xs arbitrary: i)
  case Nil
  then show ?case by simp
next
  case (Cons x xs)
  then show ?case
    by (cases xs; cases i) simp_all
qed

text \<open>
  On a course whose reached checkpoints are a prefix, and with the vessel never inside
  the discs of two successive checkpoints, a flag that the loop changes is the flag of
  the first unreached checkpoint.
\<close>

lemma run_loop_single_change:
  assumes pre: "reached_prefix cs"
    and sep: "\<forall>k. Suc k < length cs \<longrightarrow>
               \<not> (in_radius D lon lat (cs ! k) \<and> in_radius D lon lat (cs ! Suc k))"
    and i: "i < length cs"
    and chg: "reached (snd (run_loop D lon lat dt sp ins cs) ! i) \<noteq> reached (cs ! i)"
  shows "i = length (takeWhile reached cs) \<and> \<not> reached (cs ! i) \<and>
         reached (snd (run_loop D lon lat dt sp ins cs) ! i)"
proof -
  from chg run_loop_reached_iff [OF i, of D lon lat dt sp ins]
  have n: "\<not> reached (cs ! i)" and r: "reached (snd (run_loop D lon lat dt sp ins cs) ! i)"
    and w: "in_radius D lon lat (cs ! i)"
    and before: "\<forall>j<i. reached (cs ! j) \<or> in_radius D lon lat (cs ! j)"
    by auto
  have "\<forall>j<i. reached (cs ! j)"
  proof (intro allI impI, rule ccontr)
    fix j assume j: "j < i" and u: "\<not> reached (cs ! j)"
    from j obtain k where k: "i = Suc k" by (cases i) auto
    with j have "j \<le> k" by simp
    with reached_prefix_nth [OF pre this _ u] i k have "\<not> reached (cs ! k)" by simp
    with before k have "in_radius D lon lat (cs ! k)" by blast
    with sep i k w show False by blast
  qed
  with first_false_index [where P = reached and xs = cs and i = i] i n r
  show ?thesis by blast
qed

section \<open>Facts about \<^verbatim>\<open>run\<close>\<close>

lemma run_returns:
  assumes "forecast lat lon 0 = Inr f" and "world_map lat lon = Inr m"
  shows "run D b t dt lon lat heading speed vector forecast world_map =
     (Inr (fst (run_loop D lon lat dt speed Instructions (course b))),
      b\<lparr>course := snd (run_loop D lon lat dt speed Instructions (course b))\<rparr>)"
  using assms by (simp add: run_def split_beta)

lemma run_course:
  "course (snd (run D b t dt lon lat heading speed vector forecast world_map)) = course b \<or>
   course (snd (run D b t dt lon lat heading speed vector forecast world_map)) =
     snd (run_loop D lon lat dt speed Instructions (course b))"
  by (simp add: run_def split_beta split: sum.splits)

lemma run_Inr:
  assumes "fst (run D b t dt lon lat heading speed vector forecast world_map) = Inr ins"
  shows "ins = fst (run_loop D lon lat dt speed Instructions (course b)) \<and>
     snd (run D b t dt lon lat heading speed vector forecast world_map) =
       b\<lparr>course := snd (run_loop D lon lat dt speed Instructions (course b))\<rparr>"
  using assms by (auto simp add: run_def split_beta split: sum.splits)

lemma run_length:
  "length (course (snd (run D b t dt lon lat heading speed vector forecast world_map))) =
     length (course b)"
  using run_course [of D b t dt lon lat heading speed vector forecast world_map]
  by (auto simp add: run_loop_length)

lemma run_reached_mono:
  assumes "i < length (course b)" and "reached (course b ! i)"
  shows "reached (course (snd (run D b t dt lon lat heading speed vector forecast world_map)) ! i)"
  using run_course [of D b t dt lon lat heading speed vector forecast world_map]
    run_loop_reached_iff [OF assms(1), of D lon lat dt speed Instructions] assms(2)
  by auto

lemma run_ticks_length: "length (course (run_ticks D b ks)) = length (course b)"
  by (induction ks arbitrary: b) (simp_all add: run_tick_def run_length)

text \<open>What every bot reachable from a new one keeps: the prefix of reached checkpoints,
  and the position and radius of each checkpoint.\<close>

lemma run_prefix:
  "reached_prefix (course b) \<Longrightarrow>
   reached_prefix (course (snd (run D b t dt lon lat heading speed vector forecast world_map)))"
  using run_course [of D b t dt lon lat heading speed vector forecast world_map]
  by (auto simp add: run_loop_prefix)

lemma run_ticks_prefix:
  "reached_prefix (course b) \<Longrightarrow> reached_prefix (course (run_ticks D b ks))"
  by (induction ks arbitrary: b) (simp_all add: run_tick_def run_prefix)

lemma Bot_init_prefix: "reached_prefix (course (Bot_init slat slon))"
  by (simp add: Bot_init_def Checkpoint_def)

lemma run_latitude:
  "map latitude (course (snd (run D b t dt lon lat heading speed vector forecast world_map))) =
     map latitude (course b)"
  using run_course [of D b t dt lon lat heading speed vector forecast world_map]
  by (auto simp add: run_loop_latitude)

lemma run_longitude:
  "map longitude (course (snd (run D b t dt lon lat heading speed vector forecast world_map))) =
     map longitude (course b)"
  using run_course [of D b t dt lon lat heading speed vector forecast world_map]
  by (auto simp add: run_loop_longitude)

lemma run_radius:
  "map radius (course (snd (run D b t dt lon lat heading speed vector forecast world_map))) =
     map radius (course b)"
  using run_course [of D b t dt lon lat heading speed vector forecast world_map]
  by (auto simp add: run_loop_radius)

lemma run_ticks_geometry:
  "map latitude (course (run_ticks D b ks)) = map latitude (course b) \<and>
   map longitude (course (run_ticks D b ks)) = map longitude (course b) \<and>
   map radius (course (run_ticks D b ks)) = map radius (course b)"
  by (induction ks arbitrary: b)
     (simp_all add: run_tick_def run_latitude run_longitude run_radius)

lemma run_ticks_in_radius:
  assumes "i < length (course b)"
  shows "in_radius D' lon lat (course (run_ticks D b ks) ! i) = in_radius D' lon lat (course b ! i)"
proof -
  from assms have i: "i < length (course (run_ticks D b ks))" by (simp add: run_ticks_length)
  from run_ticks_geometry [of D b ks]
  have "map latitude (course (run_ticks D b ks)) ! i = map latitude (course b) ! i"
    "map longitude (course (run_ticks D b ks)) ! i = map longitude (course b) ! i"
    "map radius (course (run_ticks D b ks)) ! i = map radius (course b) ! i"
    by simp_all
  with assms i show ?thesis by (simp add: in_radius_def)
qed

text \<open>The discs of successive checkpoints of the course, with the start at latitude 46.5
  and longitude -1.8, are disjoint for \<open>flat_distance\<close>.\<close>

lemma flat_apart_disjoint:
  assumes "flat_apart c1 c2"
  shows "disjoint_discs flat_distance c1 c2"
proof -
  have "\<not> (111 * (\<bar>a1 - x\<bar> + \<bar>b1 - y\<bar>) < r1 \<and> 111 * (\<bar>a2 - x\<bar> + \<bar>b2 - y\<bar>) < r2)"
    if "r1 + r2 \<le> 111 * (\<bar>a2 - a1\<bar> + \<bar>b2 - b1\<bar>)" for a1 b1 a2 b2 r1 r2 x y :: real
  proof
    assume h: "111 * (\<bar>a1 - x\<bar> + \<bar>b1 - y\<bar>) < r1 \<and> 111 * (\<bar>a2 - x\<bar> + \<bar>b2 - y\<bar>) < r2"
    have "\<bar>a2 - a1\<bar> \<le> \<bar>a1 - x\<bar> + \<bar>a2 - x\<bar>" "\<bar>b2 - b1\<bar> \<le> \<bar>b1 - y\<bar> + \<bar>b2 - y\<bar>"
      by linarith+
    moreover have "False"
      if "111 * (u1 + v1) < r1" "111 * (u2 + v2) < r2" "r1 + r2 \<le> 111 * (w1 + w2)"
        "w1 \<le> u1 + u2" "w2 \<le> v1 + v2" for u1 v1 u2 v2 w1 w2 :: real
      using that by argo
    ultimately show False using h that by blast
  qed
  with assms show ?thesis
    unfolding flat_apart_def disjoint_discs_def in_radius_def flat_distance_def by blast
qed

lemma flat_course_apart: "successively flat_apart (course (Bot_init 46.5 (-1.8)))"
  by (simp add: Bot_init_def Checkpoint_def flat_apart_def flat_distance_def)

section \<open>The properties of the specification\<close>

text \<open>
  C1 (ordering invariant). When a call of \<^verbatim>\<open>run\<close> returns instructions, their location
  is the position of the first checkpoint of the course, in sequence order, whose
  \<open>reached\<close> flag is false after the call; it is unset exactly when no such checkpoint
  is left.
\<close>

theorem run_location_first_unreached:
  assumes "fst (run D b t dt lon lat heading speed vector forecast world_map) = Inr ins"
  shows "location ins =
    map_option location_of
      (first_unreached
        (course (snd (run D b t dt lon lat heading speed vector forecast world_map))))"
  using run_Inr [OF assms] run_loop_location [of D lon lat dt speed Instructions "course b"]
  by (simp add: Instructions_def split: option.splits)

text \<open>
  The first tick of a race: a new bot, the vessel at the start position (here latitude
  46.5, longitude -1.8) and at rest. The location returned is the first checkpoint.
\<close>

theorem run_location_first_unreached_witness:
  "fst (run flat_distance (Bot_init 46.5 (-1.8)) 0 1 (-1.8) 46.5 0 0 [1, 0]
         calm_forecast open_sea) =
     Inr \<lparr>location = Some \<lparr>loc_longitude = -11.264905, loc_latitude = 43.797109\<rparr>,
          sail = Some (Fin 1)\<rparr> \<and>
   location \<lparr>location = Some \<lparr>loc_longitude = -11.264905, loc_latitude = 43.797109\<rparr>,
          sail = Some (Fin 1)\<rparr> =
     map_option location_of
      (first_unreached
        (course (snd (run flat_distance (Bot_init 46.5 (-1.8)) 0 1 (-1.8) 46.5 0 0 [1, 0]
         calm_forecast open_sea))))"
proof -
  have r: "fst (run flat_distance (Bot_init 46.5 (-1.8)) 0 1 (-1.8) 46.5 0 0 [1, 0]
         calm_forecast open_sea) =
     Inr \<lparr>location = Some \<lparr>loc_longitude = -11.264905, loc_latitude = 43.797109\<rparr>,
          sail = Some (Fin 1)\<rparr>"
    by (simp add: run_def Bot_init_def Checkpoint_def flat_distance_def calm_forecast_def
          open_sea_def Instructions_def jump_of_def sail_for_def Let_def)
  from r run_location_first_unreached [OF r] show ?thesis by simp
qed

text \<open>
  C2 (reachability correctness), as the specification states it: in every call, every
  checkpoint's flag goes from false to true if and only if the vessel is closer to the
  checkpoint than its radius. This fails for a checkpoint behind the one the scan stops
  at. On the first tick of a race the vessel lies on the last checkpoint of the course
  (the start position, radius 5) and the first checkpoint is far away: the scan stops at
  the first checkpoint, and the flag of the last one stays false.
\<close>

theorem run_reached_all_within_counterexample:
  "\<not> ((\<not> reached (last (course (Bot_init 46.5 (-1.8)))) \<and>
        reached (last (course (snd (run flat_distance (Bot_init 46.5 (-1.8)) 0 1 (-1.8) 46.5
           0 0 [1, 0] calm_forecast open_sea))))) \<longleftrightarrow>
       flat_distance (-1.8) 46.5 (longitude (last (course (Bot_init 46.5 (-1.8)))))
          (latitude (last (course (Bot_init 46.5 (-1.8))))) <
         radius (last (course (Bot_init 46.5 (-1.8)))))"
  by (simp add: run_def Bot_init_def Checkpoint_def flat_distance_def calm_forecast_def
        open_sea_def Instructions_def jump_of_def sail_for_def Let_def)

text \<open>
  C2, amended. In a call of \<^verbatim>\<open>run\<close> whose two queries return, the flag of a checkpoint
  goes from false to true if and only if it was false at entry, the vessel is closer to
  the checkpoint than its radius, and the scan gets to the checkpoint: every checkpoint
  before it in the course was reached at entry or has the vessel inside its radius too.
\<close>

theorem run_reached_transition:
  assumes "forecast lat lon 0 = Inr f" and "world_map lat lon = Inr m"
    and "i < length (course b)"
  shows "(\<not> reached (course b ! i) \<and>
          reached (course (snd (run D b t dt lon lat heading speed vector forecast world_map)) ! i))
     \<longleftrightarrow>
         (\<not> reached (course b ! i) \<and> in_radius D lon lat (course b ! i) \<and>
          (\<forall>j<i. reached (course b ! j) \<or> in_radius D lon lat (course b ! j)))"
  using run_loop_reached_iff [OF assms(3), of D lon lat dt speed Instructions]
  by (auto simp add:
        run_returns [where forecast = forecast and world_map = world_map and lat = lat
          and lon = lon, OF assms(1,2)])

text \<open>The vessel inside both discs of \<open>twin_marks\<close>: the second flag is set as well.\<close>

theorem run_reached_transition_witness:
  "calm_forecast 0 0 0 = Inr 0 \<and> open_sea 0 0 = Inr 1 \<and> 1 < length (course twin_marks) \<and>
   reached (course (snd (run flat_distance twin_marks 0 1 0 0 0 0 [1, 0]
        calm_forecast open_sea)) ! 1) \<and>
   ((\<not> reached (course twin_marks ! 1) \<and>
     reached (course (snd (run flat_distance twin_marks 0 1 0 0 0 0 [1, 0]
        calm_forecast open_sea)) ! 1))
     \<longleftrightarrow>
    (\<not> reached (course twin_marks ! 1) \<and> in_radius flat_distance 0 0 (course twin_marks ! 1) \<and>
     (\<forall>j<1. reached (course twin_marks ! j) \<or>
        in_radius flat_distance 0 0 (course twin_marks ! j))))"
proof -
  have f: "calm_forecast 0 0 0 = Inr 0" by (simp add: calm_forecast_def)
  have m: "open_sea 0 0 = Inr 1" by (simp add: open_sea_def)
  have i: "1 < length (course twin_marks)" by (simp add: twin_marks_def)
  have r: "reached (course (snd (run flat_distance twin_marks 0 1 0 0 0 0 [1, 0]
        calm_forecast open_sea)) ! 1)"
    by (simp add: run_def twin_marks_def Checkpoint_def flat_distance_def calm_forecast_def
          open_sea_def Let_def split_beta)
  from f m i r
    run_reached_transition [where forecast = calm_forecast and world_map = open_sea
      and lat = 0 and lon = 0 and b = twin_marks and i = 1, OF f m i,
      of flat_distance 0 1 0 0 "[1, 0]"]
  show ?thesis by blast
qed

text \<open>
  C3 (monotonic reachability). Over any sequence of calls of \<^verbatim>\<open>run\<close> on a bot, a
  checkpoint whose flag is true keeps it true: no call sets a flag back to false.
\<close>

theorem reached_stays_true:
  assumes "i < length (course b)" and "reached (course b ! i)"
  shows "reached (course (run_ticks D b ks) ! i)"
  using assms
proof (induction ks arbitrary: b)
  case Nil
  then show ?case by simp
next
  case (Cons k ks)
  have "i < length (course (run_tick D b k))"
    using Cons.prems(1) by (simp add: run_tick_def run_length)
  moreover have "reached (course (run_tick D b k) ! i)"
    using Cons.prems by (simp add: run_tick_def run_reached_mono)
  ultimately show ?case
    using Cons.IH by simp
qed

text \<open>The first checkpoint of \<open>twin_marks\<close> is reached by a tick at its position, and stays
  reached when the vessel is far away and when it comes back.\<close>

theorem reached_stays_true_witness:
  "0 < length (course (run_tick flat_distance twin_marks (rest_tick 0 0))) \<and>
   reached (course (run_tick flat_distance twin_marks (rest_tick 0 0)) ! 0) \<and>
   reached (course (run_ticks flat_distance (run_tick flat_distance twin_marks (rest_tick 0 0))
      [rest_tick 90 45, rest_tick 0 0]) ! 0)"
proof -
  have l: "0 < length (course (run_tick flat_distance twin_marks (rest_tick 0 0)))"
    by (simp add: run_tick_def run_length twin_marks_def)
  have r: "reached (course (run_tick flat_distance twin_marks (rest_tick 0 0)) ! 0)"
    by (simp add: run_tick_def run_def rest_tick_def twin_marks_def Checkpoint_def
          flat_distance_def calm_forecast_def open_sea_def Let_def split_beta)
  from l r reached_stays_true [OF l r, of flat_distance "[rest_tick 90 45, rest_tick 0 0]"]
  show ?thesis by blast
qed

text \<open>
  C4 (sail power bounds). In a call of \<^verbatim>\<open>run\<close> with \<open>jump = dt * |speed| > 0\<close> on a
  course that is not empty and whose radii are all positive (the course as constructed
  has 21 checkpoints with radii between 5 and 100), the sail of the returned
  instructions is set, finite, and lies between 0 and 1.
\<close>

theorem run_sail_bounds:
  assumes "0 < dt * \<bar>speed\<bar>" and "course b \<noteq> []"
    and "\<forall>c\<in>set (course b). 0 < radius c"
    and "fst (run D b t dt lon lat heading speed vector forecast world_map) = Inr ins"
  shows "\<exists>s. sail ins = Some (Fin s) \<and> 0 \<le> s \<and> s \<le> 1"
proof -
  from run_Inr [OF assms(4)]
  have ins: "ins = fst (run_loop D lon lat dt speed Instructions (course b))" by simp
  from run_loop_sail_some [OF assms(2), of D lon lat dt speed Instructions] ins
  obtain c where c: "c \<in> set (course b)"
    and s: "sail ins =
      Some (sail_for (D lon lat (longitude c) (latitude c)) (radius c) (jump_of dt speed))"
    by auto
  from c assms(3) have "0 < radius c" by simp
  moreover from assms(1) have "0 < jump_of dt speed" by (simp add: jump_of_def)
  ultimately obtain x where
    "sail_for (D lon lat (longitude c) (latitude c)) (radius c) (jump_of dt speed) = Fin x"
    "0 \<le> x" "x \<le> 1"
    using sail_for_bounds by blast
  with s show ?thesis by simp
qed

text \<open>A new bot, the vessel 0.74 degrees west of the first checkpoint (radius 50) and
  covering 100 units in the tick: the sail is throttled to 50 / 100.\<close>

theorem run_sail_bounds_witness:
  "(0::real) < 1 * \<bar>100\<bar> \<and> course (Bot_init 46.5 (-1.8)) \<noteq> [] \<and>
   list_all (\<lambda>c. 0 < radius c) (course (Bot_init 46.5 (-1.8))) \<and>
   fst (run flat_distance (Bot_init 46.5 (-1.8)) 0 1 (-12) 43.797109 0 100 [1, 0]
         calm_forecast open_sea) =
     Inr \<lparr>location = Some \<lparr>loc_longitude = -11.264905, loc_latitude = 43.797109\<rparr>,
          sail = Some (Fin 0.5)\<rparr> \<and>
   (\<exists>s. sail \<lparr>location = Some \<lparr>loc_longitude = -11.264905, loc_latitude = 43.797109\<rparr>,
          sail = Some (Fin 0.5)\<rparr> = Some (Fin s) \<and> 0 \<le> s \<and> s \<le> 1)"
proof -
  have j: "(0::real) < 1 * \<bar>100\<bar>" by simp
  have n: "course (Bot_init 46.5 (-1.8)) \<noteq> []" by (simp add: Bot_init_def)
  have p: "\<forall>c\<in>set (course (Bot_init 46.5 (-1.8))). 0 < radius c"
    by (simp add: Bot_init_def Checkpoint_def)
  have r: "fst (run flat_distance (Bot_init 46.5 (-1.8)) 0 1 (-12) 43.797109 0 100 [1, 0]
         calm_forecast open_sea) =
     Inr \<lparr>location = Some \<lparr>loc_longitude = -11.264905, loc_latitude = 43.797109\<rparr>,
          sail = Some (Fin 0.5)\<rparr>"
    by (simp add: run_def Bot_init_def Checkpoint_def flat_distance_def calm_forecast_def
          open_sea_def Instructions_def jump_of_def sail_for_def py_min_def np_truediv_def
          Let_def)
  from j n p r run_sail_bounds [OF j n p r] show ?thesis
    by (simp add: list_all_iff)
qed

text \<open>
  C5 (scenario, sail throttling). The first unreached checkpoint has radius 10, and
  \<open>dt = 1\<close>, \<open>speed = 20\<close>, so \<open>jump = 20\<close>. At distance 45 from that checkpoint the sail
  returned is 1.0; at distance 35 it is 0.5.
\<close>

theorem run_sail_throttling:
  assumes "fst (run D b t 1 lon lat heading 20 vector forecast world_map) = Inr ins"
    and "first_unreached (course b) = Some ch" and "radius ch = 10"
  shows "(D lon lat (longitude ch) (latitude ch) = 45 \<longrightarrow> sail ins = Some (Fin 1.0)) \<and>
         (D lon lat (longitude ch) (latitude ch) = 35 \<longrightarrow> sail ins = Some (Fin 0.5))"
proof -
  from run_Inr [OF assms(1)]
  have ins: "ins = fst (run_loop D lon lat 1 20 Instructions (course b))" by simp
  have "sail ins = Some (sail_for d 10 20)"
    if d: "D lon lat (longitude ch) (latitude ch) = d" and "10 \<le> d" for d
  proof -
    from that assms(3) have "\<not> in_radius D lon lat ch" by (simp add: in_radius_def)
    from run_loop_active [OF assms(2) this, of 1 20 Instructions] ins d assms(3)
    show ?thesis by (simp add: jump_of_def)
  qed
  from this [of 45] this [of 35] show ?thesis
    by (simp add: sail_for_def py_min_def np_truediv_def)
qed

text \<open>On \<open>short_leg\<close> the active checkpoint is the second one, at longitude 1; the vessel
  at longitude 22/37 is 45 units away from it, at longitude 76/111 it is 35 away.\<close>

theorem run_sail_throttling_witness:
  "fst (run flat_distance short_leg 0 1 (22 / 37) 0 0 20 [1, 0] calm_forecast open_sea) =
     Inr \<lparr>location = Some \<lparr>loc_longitude = 1, loc_latitude = 0\<rparr>, sail = Some (Fin 1)\<rparr> \<and>
   fst (run flat_distance short_leg 0 1 (76 / 111) 0 0 20 [1, 0] calm_forecast open_sea) =
     Inr \<lparr>location = Some \<lparr>loc_longitude = 1, loc_latitude = 0\<rparr>, sail = Some (Fin 0.5)\<rparr> \<and>
   first_unreached (course short_leg) = Some (Checkpoint 0 1 10) \<and>
   radius (Checkpoint 0 1 10) = 10 \<and>
   flat_distance (22 / 37) 0 (longitude (Checkpoint 0 1 10)) (latitude (Checkpoint 0 1 10)) = 45 \<and>
   flat_distance (76 / 111) 0 (longitude (Checkpoint 0 1 10)) (latitude (Checkpoint 0 1 10)) = 35 \<and>
   sail \<lparr>location = Some \<lparr>loc_longitude = 1, loc_latitude = 0\<rparr>, sail = Some (Fin 1)\<rparr> =
     Some (Fin 1.0) \<and>
   sail \<lparr>location = Some \<lparr>loc_longitude = 1, loc_latitude = 0\<rparr>, sail = Some (Fin 0.5)\<rparr> =
     Some (Fin 0.5)"
proof -
  have r: "fst (run flat_distance short_leg 0 1 (22 / 37) 0 0 20 [1, 0] calm_forecast open_sea) =
     Inr \<lparr>location = Some \<lparr>loc_longitude = 1, loc_latitude = 0\<rparr>, sail = Some (Fin 1)\<rparr>"
    by (simp add: run_def short_leg_def Checkpoint_def flat_distance_def calm_forecast_def
          open_sea_def Instructions_def jump_of_def sail_for_def py_min_def np_truediv_def
          Let_def)
  have r': "fst (run flat_distance short_leg 0 1 (76 / 111) 0 0 20 [1, 0] calm_forecast open_sea) =
     Inr \<lparr>location = Some \<lparr>loc_longitude = 1, loc_latitude = 0\<rparr>, sail = Some (Fin 0.5)\<rparr>"
    by (simp add: run_def short_leg_def Checkpoint_def flat_distance_def calm_forecast_def
          open_sea_def Instructions_def jump_of_def sail_for_def py_min_def np_truediv_def
          Let_def)
  have u: "first_unreached (course short_leg) = Some (Checkpoint 0 1 10)"
    by (simp add: first_unreached_def short_leg_def Checkpoint_def)
  have c: "radius (Checkpoint 0 1 10) = 10" by (simp add: Checkpoint_def)
  have d: "flat_distance (22 / 37) 0 (longitude (Checkpoint 0 1 10))
      (latitude (Checkpoint 0 1 10)) = 45"
    by (simp add: flat_distance_def Checkpoint_def)
  have d': "flat_distance (76 / 111) 0 (longitude (Checkpoint 0 1 10))
      (latitude (Checkpoint 0 1 10)) = 35"
    by (simp add: flat_distance_def Checkpoint_def)
  from r r' u c d d' run_sail_throttling [OF r u c] run_sail_throttling [OF r' u c]
  show ?thesis by simp
qed

text \<open>
  C6 (scenario, all reached). In a call of \<^verbatim>\<open>run\<close> on a course, not empty, whose
  checkpoints are all reached at entry, the returned instructions have no location, and
  their sail is the value the heuristic of lines 133 to 136 computes for the last
  checkpoint of the course.
\<close>

theorem run_all_reached:
  assumes "\<forall>c\<in>set (course b). reached c" and "course b \<noteq> []"
    and "fst (run D b t dt lon lat heading speed vector forecast world_map) = Inr ins"
  shows "location ins = None \<and>
         sail ins =
           Some (sail_for (D lon lat (longitude (last (course b))) (latitude (last (course b))))
                   (radius (last (course b))) (dt * \<bar>speed\<bar>))"
  using run_Inr [OF assms(3)]
    run_loop_all_reached [OF assms(1,2), of D lon lat dt speed Instructions]
  by (simp add: Instructions_def jump_of_def)

text \<open>On \<open>finished\<close>, with the vessel 11.1 units east of the last checkpoint (radius 10)
  and \<open>jump = 20\<close>: the first checkpoint alone would give full sail, the last one gives
  10 / 20, and that is the value returned.\<close>

theorem run_all_reached_witness:
  "list_all reached (course finished) \<and> course finished \<noteq> [] \<and>
   fst (run flat_distance finished 0 1 1.1 0 0 20 [1, 0] calm_forecast open_sea) =
     Inr \<lparr>location = None, sail = Some (Fin 0.5)\<rparr> \<and>
   location \<lparr>location = None, sail = Some (Fin 0.5)\<rparr> = None \<and>
   sail \<lparr>location = None, sail = Some (Fin 0.5)\<rparr> =
     Some (sail_for (flat_distance 1.1 0 (longitude (last (course finished)))
                      (latitude (last (course finished))))
             (radius (last (course finished))) (1 * \<bar>20\<bar>))"
proof -
  have a: "\<forall>c\<in>set (course finished). reached c"
    by (simp add: finished_def Checkpoint_def)
  have n: "course finished \<noteq> []" by (simp add: finished_def)
  have r: "fst (run flat_distance finished 0 1 1.1 0 0 20 [1, 0] calm_forecast open_sea) =
     Inr \<lparr>location = None, sail = Some (Fin 0.5)\<rparr>"
    by (simp add: run_def finished_def Checkpoint_def flat_distance_def calm_forecast_def
          open_sea_def Instructions_def jump_of_def sail_for_def py_min_def np_truediv_def
          Let_def)
  from a n r run_all_reached [OF a n r] show ?thesis
    by (simp add: list_all_iff)
qed

text \<open>
  C8 (the queries do not influence the decision). Two calls of \<^verbatim>\<open>run\<close> on bots with the
  same checkpoints, with the same vessel state, and with queries that return whatever
  values, return the same instructions and leave the same checkpoints.
\<close>

theorem run_ignores_queries:
  assumes "forecast1 lat lon 0 = Inr f1" and "world_map1 lat lon = Inr m1"
    and "forecast2 lat lon 0 = Inr f2" and "world_map2 lat lon = Inr m2"
    and "course b1 = course b2"
  shows "fst (run D b1 t dt lon lat heading speed vector forecast1 world_map1) =
         fst (run D b2 t dt lon lat heading speed vector forecast2 world_map2) \<and>
         course (snd (run D b1 t dt lon lat heading speed vector forecast1 world_map1)) =
         course (snd (run D b2 t dt lon lat heading speed vector forecast2 world_map2))"
  using assms(5)
  by (simp add:
        run_returns [where forecast = forecast1 and world_map = world_map1 and lat = lat
          and lon = lon, OF assms(1,2)]
        run_returns [where forecast = forecast2 and world_map = world_map2 and lat = lat
          and lon = lon, OF assms(3,4)])

text \<open>A calm forecast over open sea against a gale over land.\<close>

theorem run_ignores_queries_witness:
  "calm_forecast 0 0 0 = Inr 0 \<and> open_sea 0 0 = Inr 1 \<and>
   gale_forecast 0 0 0 = Inr 40 \<and> dry_land 0 0 = Inr 0 \<and>
   fst (run flat_distance twin_marks 0 1 0 0 0 20 [1, 0] calm_forecast open_sea) =
   fst (run flat_distance twin_marks 0 1 0 0 0 20 [1, 0] gale_forecast dry_land) \<and>
   course (snd (run flat_distance twin_marks 0 1 0 0 0 20 [1, 0] calm_forecast open_sea)) =
   course (snd (run flat_distance twin_marks 0 1 0 0 0 20 [1, 0] gale_forecast dry_land))"
proof -
  have f1: "calm_forecast 0 0 0 = Inr 0" by (simp add: calm_forecast_def)
  have m1: "open_sea 0 0 = Inr 1" by (simp add: open_sea_def)
  have f2: "gale_forecast 0 0 0 = Inr 40" by (simp add: gale_forecast_def)
  have m2: "dry_land 0 0 = Inr 0" by (simp add: dry_land_def)
  have c: "course twin_marks = course twin_marks" by simp
  from f1 m1 f2 m2
    run_ignores_queries [where ?forecast1.0 = calm_forecast and ?world_map1.0 = open_sea
      and ?forecast2.0 = gale_forecast and ?world_map2.0 = dry_land and lat = 0 and lon = 0
      and ?b1.0 = twin_marks and ?b2.0 = twin_marks,
      OF f1 m1 f2 m2 c, of flat_distance 0 1 0 20 "[1, 0]"]
  show ?thesis by blast
qed

text \<open>
  C9 (frame condition). A call of \<^verbatim>\<open>run\<close> leaves the team, the length of the course and
  the latitude, longitude and radius of every checkpoint as they were: the bot after the
  call is the bot before it with new values for the \<open>reached\<close> flags, and nothing else.
\<close>

theorem run_frame:
  "(let b' = snd (run D b t dt lon lat heading speed vector forecast world_map) in
     team b' = team b \<and>
     length (course b') = length (course b) \<and>
     map latitude (course b') = map latitude (course b) \<and>
     map longitude (course b') = map longitude (course b) \<and>
     map radius (course b') = map radius (course b) \<and>
     b' = b\<lparr>course := map2 (\<lambda>c r. c\<lparr>reached := r\<rparr>) (course b) (map reached (course b'))\<rparr>)"
  by (simp add: run_def split_beta Let_def run_loop_length run_loop_latitude
        run_loop_longitude run_loop_radius run_loop_flags_only flags_same
      split: sum.splits)

text \<open>
  C10 (one flag per call). Take a bot reached from a new one by any sequence of calls of
  \<^verbatim>\<open>run\<close>, with a distance function for which successive checkpoints of the course
  have disjoint capture discs (the checkpoints of \<^verbatim>\<open>__init__\<close> lie far apart for their
  radii; \<open>flat_course_apart\<close> checks it for \<open>flat_distance\<close>). In every further call a
  flag that changes is the flag of the first checkpoint unreached at entry, and it goes
  from false to true. So at most one flag changes in a call, and the flags of all other
  checkpoints are left as they were.
\<close>

theorem run_one_flag:
  assumes sep: "successively (disjoint_discs D) (course (Bot_init slat slon))"
    and b: "b = run_ticks D (Bot_init slat slon) ks"
    and i: "i < length (course b)"
    and chg: "reached (course (snd (run D b t dt lon lat heading speed vector forecast
                world_map)) ! i) \<noteq> reached (course b ! i)"
  shows "i = length (takeWhile reached (course b)) \<and> \<not> reached (course b ! i) \<and>
     reached (course (snd (run D b t dt lon lat heading speed vector forecast world_map)) ! i)"
proof -
  let ?b0 = "Bot_init slat slon"
  have pre: "reached_prefix (course b)"
    unfolding b by (rule run_ticks_prefix) (rule Bot_init_prefix)
  have len: "length (course b) = length (course ?b0)"
    unfolding b by (rule run_ticks_length)
  have apart: "\<forall>k. Suc k < length (course b) \<longrightarrow>
      \<not> (in_radius D lon lat (course b ! k) \<and> in_radius D lon lat (course b ! Suc k))"
  proof (intro allI impI)
    fix k assume k: "Suc k < length (course b)"
    with len have k0: "Suc k < length (course ?b0)" by simp
    from successively_nth [OF sep k0]
    have "\<not> (in_radius D lon lat (course ?b0 ! k) \<and> in_radius D lon lat (course ?b0 ! Suc k))"
      by (simp add: disjoint_discs_def)
    moreover from k0 have "in_radius D lon lat (course b ! k) = in_radius D lon lat (course ?b0 ! k)"
      unfolding b by (intro run_ticks_in_radius) simp
    moreover from k0
    have "in_radius D lon lat (course b ! Suc k) = in_radius D lon lat (course ?b0 ! Suc k)"
      unfolding b by (intro run_ticks_in_radius) simp
    ultimately
    show "\<not> (in_radius D lon lat (course b ! k) \<and> in_radius D lon lat (course b ! Suc k))"
      by simp
  qed
  from chg run_course [of D b t dt lon lat heading speed vector forecast world_map]
  have c: "course (snd (run D b t dt lon lat heading speed vector forecast world_map)) =
      snd (run_loop D lon lat dt speed Instructions (course b))"
    by auto
  from chg c
  have "reached (snd (run_loop D lon lat dt speed Instructions (course b)) ! i) \<noteq>
      reached (course b ! i)"
    by simp
  from run_loop_single_change [OF pre apart i this] c
  show ?thesis by metis
qed

text \<open>A new bot after a tick on its first checkpoint, then a call on the second
  checkpoint: the flag that changes is the second, the first unreached one.\<close>

theorem run_one_flag_witness:
  "successively (disjoint_discs flat_distance) (course (Bot_init 46.5 (-1.8))) \<and>
   1 < length (course (run_ticks flat_distance (Bot_init 46.5 (-1.8))
         [rest_tick (-11.264905) 43.797109])) \<and>
   reached (course (snd (run flat_distance
       (run_ticks flat_distance (Bot_init 46.5 (-1.8)) [rest_tick (-11.264905) 43.797109])
       1 1 (-57.16281) 16.79314 0 20 [1, 0] calm_forecast open_sea)) ! 1) \<noteq>
     reached (course (run_ticks flat_distance (Bot_init 46.5 (-1.8))
         [rest_tick (-11.264905) 43.797109]) ! 1) \<and>
   1 = length (takeWhile reached (course (run_ticks flat_distance (Bot_init 46.5 (-1.8))
         [rest_tick (-11.264905) 43.797109]))) \<and>
   \<not> reached (course (run_ticks flat_distance (Bot_init 46.5 (-1.8))
         [rest_tick (-11.264905) 43.797109]) ! 1) \<and>
   reached (course (snd (run flat_distance
       (run_ticks flat_distance (Bot_init 46.5 (-1.8)) [rest_tick (-11.264905) 43.797109])
       1 1 (-57.16281) 16.79314 0 20 [1, 0] calm_forecast open_sea)) ! 1)"
proof -
  let ?b = "run_ticks flat_distance (Bot_init 46.5 (-1.8))
      ([rest_tick (-11.264905) 43.797109] :: (string, real, nat) tick list)"
  have s: "successively (disjoint_discs flat_distance) (course (Bot_init 46.5 (-1.8)))"
    using flat_course_apart by (rule successively_mono) (rule flat_apart_disjoint)
  have b: "?b = run_ticks flat_distance (Bot_init 46.5 (-1.8))
      [rest_tick (-11.264905) 43.797109]" by simp
  have i: "1 < length (course ?b)"
    by (simp add: run_ticks_length Bot_init_def del: run_ticks.simps)
  have r: "reached (course (snd (run flat_distance ?b
       1 1 (-57.16281) 16.79314 0 20 [1, 0] calm_forecast open_sea)) ! 1) \<noteq>
     reached (course ?b ! 1)"
    by (simp add: run_tick_def run_def rest_tick_def Bot_init_def Checkpoint_def
          flat_distance_def calm_forecast_def open_sea_def Let_def split_beta)
  from s i r run_one_flag [OF s b i r] show ?thesis by blast
qed

end
